theory Spec2Isabelle
  imports Main
begin

chapter \<open>The programs\<close>

section \<open>JavaScript values\<close>

text \<open>
  The values \<open>JSON.parse\<close> can return. An object is the list of its entries in the
  order \<open>Object.entries\<close> lists them. A number is given by the text \<open>String\<close> prints
  for it (\<open>1\<close>, \<open>-2.5\<close>, \<open>1e+21\<close>; \<open>0\<close> for both zeros): the scripts print
  numbers and test them against zero, and do nothing else with them. A value that may
  be \<open>undefined\<close> (a missing property) is a \<open>json option\<close>, \<open>None\<close> being
  \<open>undefined\<close>. Strings are lists of 8-bit characters.
\<close>

datatype json =
    JNull
  | JBool bool
  | JNum string
  | JStr string
  | JArr "json list"
  | JObj "(string \<times> json) list"

datatype exn = TypeError | SyntaxError | FsError

section \<open>konvertieren.js: the escaper\<close>

text \<open>
  \<open>s.replace(/c/g, r)\<close> for a pattern that is one literal character and a replacement
  text without \<open>$\<close>: every occurrence of the character is replaced.
\<close>

definition replace_g :: "char \<Rightarrow> string \<Rightarrow> string \<Rightarrow> string" where
  "replace_g c r s = concat (map (\<lambda>x. if x = c then r else [x]) s)"

definition escape :: "json option \<Rightarrow> string" where
  "escape text =
     (case text of
        Some (JStr s) \<Rightarrow>
          (let escapedText = s;
               escapedText = replace_g (CHR ''&'') [CHR 0x5C, CHR ''&''] escapedText;
               escapedText = replace_g (CHR ''%'') [CHR 0x5C, CHR ''%''] escapedText;
               escapedText = replace_g (CHR ''#'') [CHR 0x5C, CHR ''#''] escapedText;
               escapedText = replace_g (CHR ''_'') [CHR 0x5C, CHR ''_''] escapedText;
               escapedText = replace_g (CHR ''{'') [CHR 0x5C, CHR ''{''] escapedText;
               escapedText = replace_g (CHR ''}'') [CHR 0x5C, CHR ''}''] escapedText;
               escapedText = replace_g (CHR ''~'') (CHR 0x5C # ''textasciitilde{}'') escapedText;
               escapedText = replace_g (CHR ''^'') (CHR 0x5C # ''textasciicircum{}'') escapedText;
               escapedText = replace_g (CHR 0x22) [CHR 0x22, CHR 0x22] escapedText
           in escapedText)
      | _ \<Rightarrow> [])"

text \<open>The replacement chain as the specification lists it: an ordered table.\<close>

definition escape_table :: "(char \<times> string) list" where
  "escape_table =
     [(CHR ''&'', [CHR 0x5C, CHR ''&'']),
      (CHR ''%'', [CHR 0x5C, CHR ''%'']),
      (CHR ''#'', [CHR 0x5C, CHR ''#'']),
      (CHR ''_'', [CHR 0x5C, CHR ''_'']),
      (CHR ''{'', [CHR 0x5C, CHR ''{'']),
      (CHR ''}'', [CHR 0x5C, CHR ''}'']),
      (CHR ''~'', CHR 0x5C # ''textasciitilde{}''),
      (CHR ''^'', CHR 0x5C # ''textasciicircum{}''),
      (CHR 0x22, [CHR 0x22, CHR 0x22])]"

definition apply_chain :: "(char \<times> string) list \<Rightarrow> string \<Rightarrow> string" where
  "apply_chain table s = foldl (\<lambda>acc (c, r). replace_g c r acc) s table"

definition is_string :: "json option \<Rightarrow> bool" where
  "is_string v = (case v of Some (JStr _) \<Rightarrow> True | _ \<Rightarrow> False)"

text \<open>What one character becomes when the whole chain has run over it.\<close>

definition esc_char :: "char \<Rightarrow> string" where
  "esc_char x = (case map_of escape_table x of Some r \<Rightarrow> r | None \<Rightarrow> [x])"

section \<open>konvertieren.js: the extractor\<close>

text \<open>
  \<open>allQuestions.push(...value)\<close>: the spread reads \<open>value\<close> through the iteration
  protocol. An array gives its elements, a string its characters (as one-character
  strings); \<open>null\<close>, a boolean, a number and a plain object are not iterable and the
  call throws a TypeError.
\<close>

fun spread :: "json \<Rightarrow> exn + json list" where
  "spread (JArr xs) = Inr xs"
| "spread (JStr s) = Inr (map (\<lambda>c. JStr [c]) s)"
| "spread JNull = Inl TypeError"
| "spread (JBool b) = Inl TypeError"
| "spread (JNum n) = Inl TypeError"
| "spread (JObj kvs) = Inl TypeError"

text \<open>\<open>String(n)\<close> for a natural number: its decimal digits.\<close>

fun String_of_nat :: "nat \<Rightarrow> string" where
  "String_of_nat n =
     (if n < 10 then [''0123456789'' ! n]
      else String_of_nat (n div 10) @ [''0123456789'' ! (n mod 10)])"

declare String_of_nat.simps [simp del]

text \<open>\<open>Object.entries\<close> of an array: the indices, as strings, with the elements.\<close>

definition array_entries :: "json list \<Rightarrow> (string \<times> json) list" where
  "array_entries xs = zip (map String_of_nat [0..<length xs]) xs"

definition entries_weight :: "(string \<times> json) list \<Rightarrow> nat" where
  "entries_weight kvs = sum_list (map (\<lambda>kv. size (snd kv) + 1) kvs)"

lemma entries_weight_obj: "entries_weight kvs < size (JObj kvs)"
  by (induction kvs) (auto simp: entries_weight_def)

lemma entries_weight_zip: "entries_weight (zip ks xs) \<le> size_list size xs"
proof (induction xs arbitrary: ks)
  case Nil
  show ?case by (simp add: entries_weight_def)
next
  case (Cons a xs)
  show ?case
  proof (cases ks)
    case Nil
    then show ?thesis by (simp add: entries_weight_def)
  next
    case (Cons k ks')
    with Cons.IH [of ks'] show ?thesis by (simp add: entries_weight_def)
  qed
qed

lemma entries_weight_arr: "entries_weight (array_entries xs) < size (JArr xs)"
  using entries_weight_zip [of "map String_of_nat [0..<length xs]" xs]
  by (simp add: array_entries_def)

text \<open>
  \<open>traverse\<close> with the array \<open>allQuestions\<close> it pushes to passed along and returned;
  \<open>forEach_entry\<close> is the loop \<open>Object.entries(jsonObj).forEach(...)\<close>. A thrown
  exception ends the traversal.
\<close>

function traverse :: "json \<Rightarrow> json list \<Rightarrow> exn + json list"
  and forEach_entry :: "(string \<times> json) list \<Rightarrow> json list \<Rightarrow> exn + json list" where
  "traverse (JObj kvs) allQuestions = forEach_entry kvs allQuestions"
| "traverse (JArr xs) allQuestions = forEach_entry (array_entries xs) allQuestions"
| "traverse JNull allQuestions = Inr allQuestions"
| "traverse (JBool b) allQuestions = Inr allQuestions"
| "traverse (JNum n) allQuestions = Inr allQuestions"
| "traverse (JStr s) allQuestions = Inr allQuestions"
| "forEach_entry [] allQuestions = Inr allQuestions"
| "forEach_entry ((key, value) # rest) allQuestions =
     (if key = ''questions'' then
        (case spread value of
           Inl e \<Rightarrow> Inl e
         | Inr vs \<Rightarrow> forEach_entry rest (allQuestions @ vs))
      else
        (case traverse value allQuestions of
           Inl e \<Rightarrow> Inl e
         | Inr acc \<Rightarrow> forEach_entry rest acc))"
  by pat_completeness auto
termination
proof (relation "measure (\<lambda>x. case x of Inl (j, _) \<Rightarrow> size j | Inr (kvs, _) \<Rightarrow> entries_weight kvs)")
  fix kvs :: "(string \<times> json) list" and allQuestions :: "json list"
  show "(Inr (kvs, allQuestions), Inl (JObj kvs, allQuestions))
        \<in> measure (\<lambda>x. case x of Inl (j, _) \<Rightarrow> size j | Inr (kvs, _) \<Rightarrow> entries_weight kvs)"
    using entries_weight_obj [of kvs] by simp
next
  fix xs allQuestions :: "json list"
  show "(Inr (array_entries xs, allQuestions), Inl (JArr xs, allQuestions))
        \<in> measure (\<lambda>x. case x of Inl (j, _) \<Rightarrow> size j | Inr (kvs, _) \<Rightarrow> entries_weight kvs)"
    using entries_weight_arr [of xs] by simp
qed (simp_all add: entries_weight_def)

text \<open>The extractor as \<open>main\<close> runs it: \<open>allQuestions\<close> starts empty.\<close>

definition extractor :: "json \<Rightarrow> exn + json list" where
  "extractor allQuestionsRaw = traverse allQuestionsRaw []"

text \<open>
  The specification's reading: the arrays found directly under a key \<open>questions\<close>, in
  depth-first order; an object's entries in their order, an array's elements in
  theirs; what lies under a \<open>questions\<close> key is not searched.
\<close>

fun questions_arrays :: "json \<Rightarrow> json list list" where
  "questions_arrays (JObj kvs) =
     concat (map (\<lambda>(k, v). if k = ''questions''
                             then (case v of JArr xs \<Rightarrow> [xs] | _ \<Rightarrow> [])
                             else questions_arrays v) kvs)"
| "questions_arrays (JArr xs) = concat (map questions_arrays xs)"
| "questions_arrays _ = []"

text \<open>Every value found directly under a key \<open>questions\<close> is an array.\<close>

fun questions_are_arrays :: "json \<Rightarrow> bool" where
  "questions_are_arrays (JObj kvs) =
     list_all (\<lambda>(k, v). if k = ''questions''
                          then (case v of JArr xs \<Rightarrow> True | _ \<Rightarrow> False)
                          else questions_are_arrays v) kvs"
| "questions_are_arrays (JArr xs) = list_all questions_are_arrays xs"
| "questions_are_arrays _ = True"

section \<open>svg\_dimension\_parser.js\<close>

text \<open>
  The regular expressions of this script, each written out as the matcher it is.
  \<open>\s\<close> on 8-bit characters; the flag \<open>i\<close> on the ASCII letters (no other 8-bit
  character is equal to an ASCII letter under it).
\<close>

definition is_space :: "char \<Rightarrow> bool" where
  "is_space c = (c \<in> set [CHR 0x09, CHR 0x0A, CHR 0x0B, CHR 0x0C, CHR 0x0D, CHR 0x20, CHR 0xA0])"

definition to_lower :: "char \<Rightarrow> char" where
  "to_lower c =
     (case map_of (zip ''ABCDEFGHIJKLMNOPQRSTUVWXYZ'' ''abcdefghijklmnopqrstuvwxyz'') c of
        Some l \<Rightarrow> l
      | None \<Rightarrow> c)"

text \<open>A literal, compared ignoring case, at the start of the text: what follows it.\<close>

fun match_literal_i :: "string \<Rightarrow> string \<Rightarrow> string option" where
  "match_literal_i [] s = Some s"
| "match_literal_i (p # ps) [] = None"
| "match_literal_i (p # ps) (c # cs) =
     (if to_lower p = to_lower c then match_literal_i ps cs else None)"

definition is_quote :: "char \<Rightarrow> bool" where
  "is_quote c = (c = CHR 0x22 \<or> c = CHR 0x27)"

text \<open>
  \<open>name\s*=\s*["']([^"']*)["']\<close> with the flag \<open>i\<close>, tried at the start of the text:
  the first group. Every quantifier is followed by a character outside its class, so
  the greedy choice is the only one. The name is taken literally (the names the script
  asks for have no character that is special in a regular expression).
\<close>

definition attribute_at :: "string \<Rightarrow> string \<Rightarrow> string option" where
  "attribute_at attributeName s =
     (case match_literal_i attributeName s of
        None \<Rightarrow> None
      | Some r1 \<Rightarrow>
          (case dropWhile is_space r1 of
             [] \<Rightarrow> None
           | c # r2 \<Rightarrow>
               if c \<noteq> CHR ''='' then None
               else (case dropWhile is_space r2 of
                       [] \<Rightarrow> None
                     | q # r3 \<Rightarrow>
                         if \<not> is_quote q then None
                         else (case dropWhile (\<lambda>x. \<not> is_quote x) r3 of
                                 [] \<Rightarrow> None
                               | q' # r4 \<Rightarrow> Some (takeWhile (\<lambda>x. \<not> is_quote x) r3)))))"

text \<open>\<open>tagString.match(regex)\<close>: the leftmost position where the expression matches.\<close>

fun extractAttribute :: "string \<Rightarrow> string \<Rightarrow> string option" where
  "extractAttribute [] attributeName = attribute_at attributeName []"
| "extractAttribute (c # cs) attributeName =
     (case attribute_at attributeName (c # cs) of
        Some v \<Rightarrow> Some v
      | None \<Rightarrow> extractAttribute cs attributeName)"

text \<open>\<open>/<svg[^>]*>/i\<close> at the start of the text: the text matched.\<close>

definition svg_tag_at :: "string \<Rightarrow> string option" where
  "svg_tag_at s =
     (case match_literal_i ''<svg'' s of
        None \<Rightarrow> None
      | Some r \<Rightarrow>
          (case dropWhile (\<lambda>x. x \<noteq> CHR ''>'') r of
             [] \<Rightarrow> None
           | g # _ \<Rightarrow> Some (take 4 s @ takeWhile (\<lambda>x. x \<noteq> CHR ''>'') r @ [g])))"

fun svg_match :: "string \<Rightarrow> string option" where
  "svg_match [] = svg_tag_at []"
| "svg_match (c # cs) =
     (case svg_tag_at (c # cs) of Some t \<Rightarrow> Some t | None \<Rightarrow> svg_match cs)"

text \<open>\<open>s.trim()\<close> and \<open>s.split(/[\s,]+/)\<close>.\<close>

definition trim :: "string \<Rightarrow> string" where
  "trim s = rev (dropWhile is_space (rev (dropWhile is_space s)))"

definition is_separator :: "char \<Rightarrow> bool" where
  "is_separator c = (is_space c \<or> c = CHR '','')"

function split_separators :: "string \<Rightarrow> string list" where
  "split_separators [] = [[]]"
| "split_separators (c # cs) =
     (if is_separator c then [] # split_separators (dropWhile is_separator cs)
      else (case split_separators cs of
              [] \<Rightarrow> [[c]]
            | t # ts \<Rightarrow> (c # t) # ts))"
  by pat_completeness auto
termination
  by (relation "measure length") (simp_all add: le_imp_less_Suc length_dropWhile_le)

text \<open>
  \<open>width.match(/(%|px|em|rem|pt|in)$/i)?.[0]\<close>: the leftmost position from which the
  rest of the text is one of the units, ignoring case.
\<close>

fun unit_match :: "string \<Rightarrow> string option" where
  "unit_match [] = None"
| "unit_match (c # cs) =
     (if map to_lower (c # cs) \<in> set [''%'', ''px'', ''em'', ''rem'', ''pt'', ''in'']
      then Some (c # cs)
      else unit_match cs)"

text \<open>A string or \<open>null\<close> in a condition: \<open>null\<close> and the empty string are falsy.\<close>

definition truthy_string :: "string option \<Rightarrow> bool" where
  "truthy_string v = (case v of None \<Rightarrow> False | Some s \<Rightarrow> s \<noteq> [])"

record dimensions =
  width :: "string option"
  height :: "string option"
  unit :: string
  viewBox :: "string option"
  source :: string

text \<open>
  The three shapes of the result: \<open>{ error }\<close>; the object \<open>dimensions\<close>; and the
  object with \<open>width: null\<close>, \<open>height: null\<close>, \<open>source: 'none found'\<close>, a fixed
  warning as \<open>message\<close> and the \<open>viewBox\<close>, which is all \<open>NoneFound\<close> carries.
\<close>

datatype svg_result =
    ErrorResult string
  | Dimensions dimensions
  | NoneFound "string option"

definition getSvgDimensions :: "string \<Rightarrow> svg_result" where
  "getSvgDimensions svgContent =
     (case svg_match svgContent of
        None \<Rightarrow> ErrorResult ''Could not find the root <svg> tag.''
      | Some rootTag \<Rightarrow>
          (let w = extractAttribute rootTag ''width'';
               h = extractAttribute rootTag ''height'';
               vb = extractAttribute rootTag ''viewBox'';
               dimensions = \<lparr>width = w, height = h, unit = ''unknown'', viewBox = vb,
                 source = (if truthy_string w \<or> truthy_string h then ''attributes''
                           else ''none found'')\<rparr>;
               dimensions =
                 (case vb of
                    None \<Rightarrow> dimensions
                  | Some v \<Rightarrow>
                      if (\<not> truthy_string w \<or> \<not> truthy_string h) \<and> v \<noteq> [] then
                        (case split_separators (trim v) of
                           [p0, p1, vbWidth, vbHeight] \<Rightarrow>
                             dimensions
                               \<lparr>width := (if \<not> truthy_string w then Some vbWidth
                                           else width dimensions),
                                height := (if \<not> truthy_string h then Some vbHeight
                                            else height dimensions),
                                unit := ''unitless (from viewBox)'',
                                source := ''viewBox aspect ratio''\<rparr>
                         | _ \<Rightarrow> dimensions)
                      else dimensions);
               dimensions =
                 (case w of
                    None \<Rightarrow> dimensions
                  | Some wv \<Rightarrow>
                      if source dimensions = ''attributes'' \<and> wv \<noteq> [] then
                        dimensions
                          \<lparr>unit := (case unit_match wv of
                                      Some u \<Rightarrow> u
                                    | None \<Rightarrow> ''unitless (default px)'')\<rparr>
                      else dimensions)
           in if width dimensions = None \<and> height dimensions = None then NoneFound vb
              else Dimensions dimensions))"

text \<open>The script's second internal test case.\<close>

definition testSvg2 :: string where
  "testSvg2 = ''<svg viewBox='' @ [CHR 0x22] @ ''0 0 100 50'' @ [CHR 0x22] @ '' xmlns=''
     @ [CHR 0x22] @ ''http://www.w3.org/2000/svg'' @ [CHR 0x22] @ ''><circle/></svg>''"

section \<open>Property access, conversion to text, truthiness\<close>

text \<open>
  \<open>v.name\<close> for the property names the scripts read (\<open>chapter\<close>, \<open>section\<close>,
  \<open>section_txt\<close>, \<open>number\<close>, \<open>question\<close>, \<open>answer_a\<close> \<dots> \<open>picture_a\<close>,
  \<open>sections\<close>, \<open>questions\<close>): on \<open>null\<close> a TypeError; on an object the entry of
  that name or \<open>undefined\<close>; on an array, a string, a number or a boolean
  \<open>undefined\<close>, none of them having a property of one of these names.
\<close>

fun get_prop :: "json \<Rightarrow> string \<Rightarrow> exn + json option" where
  "get_prop JNull name = Inl TypeError"
| "get_prop (JObj kvs) name = Inr (map_of kvs name)"
| "get_prop (JArr xs) name = Inr None"
| "get_prop (JStr s) name = Inr None"
| "get_prop (JNum n) name = Inr None"
| "get_prop (JBool b) name = Inr None"

definition join_comma :: "string list \<Rightarrow> string" where
  "join_comma ss = (case ss of [] \<Rightarrow> [] | t # ts \<Rightarrow> t @ concat (map (\<lambda>u. CHR '','' # u) ts))"

text \<open>The results of a sequence of steps: the first exception, or all the values.\<close>

fun all_results :: "(exn + 'a) list \<Rightarrow> exn + 'a list" where
  "all_results [] = Inr []"
| "all_results (Inl e # rs) = Inl e"
| "all_results (Inr x # rs) = (case all_results rs of Inl e \<Rightarrow> Inl e | Inr xs \<Rightarrow> Inr (x # xs))"

text \<open>
  What a template literal \<open>`${v}`\<close> does with a value: \<open>ToString(v)\<close>. An array
  prints its elements joined by commas, \<open>null\<close> among them as the empty text. An
  object prints \<open>[object Object]\<close> through \<open>Object.prototype.toString\<close>, unless it has
  an entry \<open>toString\<close> of its own: that entry is no function, and neither an own entry
  \<open>valueOf\<close> nor \<open>Object.prototype.valueOf\<close> gives a primitive value, so the
  conversion throws a TypeError.
\<close>

fun toString :: "json \<Rightarrow> exn + string" where
  "toString JNull = Inr ''null''"
| "toString (JBool b) = Inr (if b then ''true'' else ''false'')"
| "toString (JNum t) = Inr t"
| "toString (JStr s) = Inr s"
| "toString (JArr xs) =
     (case all_results (map (\<lambda>x. if x = JNull then Inr [] else toString x) xs) of
        Inl e \<Rightarrow> Inl e
      | Inr texts \<Rightarrow> Inr (join_comma texts))"
| "toString (JObj kvs) =
     (if map_of kvs ''toString'' = None then Inr ''[object Object]'' else Inl TypeError)"

definition template :: "json option \<Rightarrow> exn + string" where
  "template v = (case v of None \<Rightarrow> Inr ''undefined'' | Some j \<Rightarrow> toString j)"

text \<open>\<open>!!v\<close>: \<open>undefined\<close>, \<open>null\<close>, \<open>false\<close>, \<open>0\<close> and the empty string are falsy.\<close>

definition truthy :: "json option \<Rightarrow> bool" where
  "truthy v =
     (case v of
        None \<Rightarrow> False
      | Some JNull \<Rightarrow> False
      | Some (JBool b) \<Rightarrow> b
      | Some (JNum t) \<Rightarrow> t \<noteq> ''0''
      | Some (JStr s) \<Rightarrow> s \<noteq> []
      | Some (JArr xs) \<Rightarrow> True
      | Some (JObj kvs) \<Rightarrow> True)"

section \<open>50ohm\_convert.js: the grouper\<close>

text \<open>The key both loops compute: \<open>`${x.chapter}-${x.section}`\<close>.\<close>

definition key_of :: "json \<Rightarrow> exn + string" where
  "key_of x =
     (case get_prop x ''chapter'' of
        Inl e \<Rightarrow> Inl e
      | Inr chapter \<Rightarrow>
          (case template chapter of
             Inl e \<Rightarrow> Inl e
           | Inr c \<Rightarrow>
               (case get_prop x ''section'' of
                  Inl e \<Rightarrow> Inl e
                | Inr sect \<Rightarrow>
                    (case template sect of
                       Inl e \<Rightarrow> Inl e
                     | Inr t \<Rightarrow> Inr (c @ ''-'' @ t)))))"

text \<open>
  \<open>questions.forEach(q => ...)\<close> filling \<open>sectionQuestionsMap\<close>, a \<open>Map\<close> from key to
  the array of the questions of that key.
\<close>

fun group_questions :: "json list \<Rightarrow> (string \<rightharpoonup> json list) \<Rightarrow> exn + (string \<rightharpoonup> json list)" where
  "group_questions [] sectionQuestionsMap = Inr sectionQuestionsMap"
| "group_questions (q # rest) sectionQuestionsMap =
     (case key_of q of
        Inl e \<Rightarrow> Inl e
      | Inr key \<Rightarrow>
          (let m = (if sectionQuestionsMap key = None then sectionQuestionsMap(key \<mapsto> [])
                    else sectionQuestionsMap)
           in case m key of
                None \<Rightarrow> Inl TypeError
              | Some fragen \<Rightarrow> group_questions rest (m(key \<mapsto> fragen @ [q]))))"

definition FRAGEN_SUBDIR :: string where
  "FRAGEN_SUBDIR = ''tex_fragen''"

text \<open>The loop of \<open>generateLatexContent\<close> over the questions: the lines it adds.\<close>

fun input_lines :: "json list \<Rightarrow> exn + string" where
  "input_lines [] = Inr []"
| "input_lines (frage # rest) =
     (case get_prop frage ''number'' of
        Inl e \<Rightarrow> Inl e
      | Inr frageID \<Rightarrow>
          (case template frageID of
             Inl e \<Rightarrow> Inl e
           | Inr number \<Rightarrow>
               (case input_lines rest of
                  Inl e \<Rightarrow> Inl e
                | Inr content \<Rightarrow>
                    Inr (''    '' @ [CHR 0x5C] @ ''input{'' @ FRAGEN_SUBDIR @ ''/'' @ number
                         @ ''.tex}'' @ [CHR 0x0A] @ content))))"

definition generateLatexContent :: "json list \<Rightarrow> exn + string" where
  "generateLatexContent fragenListe =
     (case input_lines fragenListe of
        Inl e \<Rightarrow> Inl e
      | Inr body \<Rightarrow>
          Inr ([CHR 0x5C] @ ''begin{description}'' @ [CHR 0x0A] @ body
               @ [CHR 0x5C] @ ''end{description}'' @ [CHR 0x0A]))"

text \<open>
  Inside \<open>sections.forEach(sektion => ...)\<close>, the block under the \<open>if\<close> up to the
  write: the file name and the content of the section's file. Every template literal
  converts its values to text and may throw.
\<close>

definition section_tex :: "json \<Rightarrow> json list \<Rightarrow> exn + string \<times> string" where
  "section_tex sektion fragenListe =
     (case (get_prop sektion ''chapter'', get_prop sektion ''section'',
            get_prop sektion ''section_txt'') of
        (Inr chapter, Inr sect, Inr sektionTitle) \<Rightarrow>
          (case template chapter of
             Inl e \<Rightarrow> Inl e
           | Inr c \<Rightarrow>
               (case template sect of
                  Inl e \<Rightarrow> Inl e
                | Inr t \<Rightarrow>
                    (let sektionID = c @ ''S'' @ t;
                         fileName = sektionID @ ''.tex''
                     in case generateLatexContent fragenListe of
                          Inl e \<Rightarrow> Inl e
                        | Inr latexContent \<Rightarrow>
                            (case template sektionTitle of
                               Inl e \<Rightarrow> Inl e
                             | Inr title \<Rightarrow>
                                 (let fileHeader = ''% Kapitel '' @ c @ '', Sektion '' @ t
                                        @ '': '' @ title @ [CHR 0x0A, CHR 0x0A];
                                      finalContent = fileHeader @ latexContent
                                  in Inr (fileName, finalContent))))))
      | _ \<Rightarrow> Inl TypeError)"

text \<open>
  The body of the loop up to the write: the key, the lookup and the \<open>if\<close>; nothing
  when the section has no questions.
\<close>

definition section_file :: "(string \<rightharpoonup> json list) \<Rightarrow> json \<Rightarrow> exn + (string \<times> string) option" where
  "section_file sectionQuestionsMap sektion =
     (case key_of sektion of
        Inl e \<Rightarrow> Inl e
      | Inr key \<Rightarrow>
          (case sectionQuestionsMap key of
             None \<Rightarrow> Inr None
           | Some fragenListe \<Rightarrow>
               if length fragenListe > 0 then
                 (case section_tex sektion fragenListe of
                    Inl e \<Rightarrow> Inl e
                  | Inr file \<Rightarrow> Inr (Some file))
               else Inr None))"

text \<open>
  The file system is a state \<open>'w\<close> with the two calls the scripts make:
  \<open>writeFileSync path data\<close> gives the new state and the exception it throws, if
  any; \<open>readFileSync path\<close> the text or the exception. \<open>path.join\<close> is a parameter
  too. \<open>forEach_section\<close> is the loop over the sections with the counter
  \<open>generatedFilesCount\<close>: the write is not inside a \<open>try\<close>, so its exception ends
  the loop.
\<close>

type_synonym 'w writeFileSync = "string \<Rightarrow> string \<Rightarrow> 'w \<Rightarrow> exn option \<times> 'w"
type_synonym 'w readFileSync = "string \<Rightarrow> 'w \<Rightarrow> exn + string"
type_synonym path_join = "string \<Rightarrow> string \<Rightarrow> string"

fun forEach_section ::
  "'w writeFileSync \<Rightarrow> path_join \<Rightarrow> string \<Rightarrow> (string \<rightharpoonup> json list) \<Rightarrow> json list
   \<Rightarrow> 'w \<times> nat \<Rightarrow> exn + 'w \<times> nat" where
  "forEach_section writeFileSync join outputDir m [] (w, generatedFilesCount) =
     Inr (w, generatedFilesCount)"
| "forEach_section writeFileSync join outputDir m (sektion # rest) (w, generatedFilesCount) =
     (case section_file m sektion of
        Inl e \<Rightarrow> Inl e
      | Inr None \<Rightarrow>
          forEach_section writeFileSync join outputDir m rest (w, generatedFilesCount)
      | Inr (Some (fileName, finalContent)) \<Rightarrow>
          (case writeFileSync (join outputDir fileName) finalContent w of
             (Some e, w') \<Rightarrow> Inl e
           | (None, w') \<Rightarrow>
               forEach_section writeFileSync join outputDir m rest (w', generatedFilesCount + 1)))"

text \<open>Steps 4 and 5 of \<open>processConversionJob\<close>: the grouper on its two sequences.\<close>

definition grouper ::
  "'w writeFileSync \<Rightarrow> path_join \<Rightarrow> string \<Rightarrow> json list \<Rightarrow> json list \<Rightarrow> 'w \<Rightarrow> exn + 'w \<times> nat" where
  "grouper writeFileSync join outputDir questions sections w =
     (case group_questions questions Map.empty of
        Inl e \<Rightarrow> Inl e
      | Inr sectionQuestionsMap \<Rightarrow>
          forEach_section writeFileSync join outputDir sectionQuestionsMap sections (w, 0))"

text \<open>A file system that records every write, in order, and never fails.\<close>

definition recording :: "(string \<times> string) list writeFileSync" where
  "recording path data w = (None, w @ [(path, data)])"

text \<open>
  The specification's reading of the grouper. The text of a field of a record; the key
  of a record, the text of its chapter and of its section with a hyphen between them;
  the questions of a section, those with the section's key in the order of the question
  sequence; the sections that get an output, those with at least one such question.
\<close>

definition field_text :: "json \<Rightarrow> string \<Rightarrow> string" where
  "field_text x name =
     (case get_prop x name of
        Inl e \<Rightarrow> []
      | Inr v \<Rightarrow> (case template v of Inl e \<Rightarrow> [] | Inr t \<Rightarrow> t))"

definition key_text :: "json \<Rightarrow> string" where
  "key_text x = field_text x ''chapter'' @ ''-'' @ field_text x ''section''"

definition matching :: "json list \<Rightarrow> json \<Rightarrow> json list" where
  "matching questions sektion = filter (\<lambda>q. key_text q = key_text sektion) questions"




text \<open>
  A field that can be read and converted to text: the record is not \<open>null\<close>, and the
  field is not an object with an entry \<open>toString\<close> nor an array that holds one. A
  question record has such a chapter, section and number, a section record such a
  chapter, section and title.
\<close>

definition has_text :: "json \<Rightarrow> string \<Rightarrow> bool" where
  "has_text x name =
     (case get_prop x name of
        Inl e \<Rightarrow> False
      | Inr v \<Rightarrow> (case template v of Inl e \<Rightarrow> False | Inr t \<Rightarrow> True))"

definition question_record :: "json \<Rightarrow> bool" where
  "question_record q = (has_text q ''chapter'' \<and> has_text q ''section'' \<and> has_text q ''number'')"

definition section_record :: "json \<Rightarrow> bool" where
  "section_record s = (has_text s ''chapter'' \<and> has_text s ''section'' \<and> has_text s ''section_txt'')"

text \<open>
  \<open>fragenListe\<close> of the second loop: what \<open>sectionQuestionsMap.get(key)\<close> gives for a
  section, \<open>undefined\<close> read as no question.
\<close>

definition fragenListe_of :: "(string \<rightharpoonup> json list) \<Rightarrow> json \<Rightarrow> json list" where
  "fragenListe_of sectionQuestionsMap sektion =
     (case key_of sektion of
        Inl e \<Rightarrow> []
      | Inr key \<Rightarrow> (case sectionQuestionsMap key of None \<Rightarrow> [] | Some fragenListe \<Rightarrow> fragenListe))"

text \<open>The map the first loop builds from a map \<open>m\<close>, in closed form.\<close>

definition grouped :: "json list \<Rightarrow> (string \<rightharpoonup> json list) \<Rightarrow> (string \<rightharpoonup> json list)" where
  "grouped qs m = (\<lambda>k. case m k of
       None \<Rightarrow> (if filter (\<lambda>q. key_text q = k) qs = [] then None
                 else Some (filter (\<lambda>q. key_text q = k) qs))
     | Some old \<Rightarrow> Some (old @ filter (\<lambda>q. key_text q = k) qs))"

text \<open>The files of the sections in order, up to the first exception, writes left out.\<close>

fun section_files :: "(string \<rightharpoonup> json list) \<Rightarrow> json list \<Rightarrow> exn + (string \<times> string) list" where
  "section_files m [] = Inr []"
| "section_files m (sektion # rest) =
     (case section_file m sektion of
        Inl e \<Rightarrow> Inl e
      | Inr None \<Rightarrow> section_files m rest
      | Inr (Some tex) \<Rightarrow>
          (case section_files m rest of
             Inl e \<Rightarrow> Inl e
           | Inr files \<Rightarrow> Inr (tex # files)))"

text \<open>The example of the specification: two questions and three sections.\<close>

definition example_questions :: "json list" where
  "example_questions =
     [JObj [(''chapter'', JNum ''1''), (''section'', JNum ''1''), (''number'', JStr ''A'')],
      JObj [(''chapter'', JNum ''1''), (''section'', JNum ''2''), (''number'', JStr ''B'')]]"

definition example_sections :: "json list" where
  "example_sections =
     [JObj [(''chapter'', JNum ''1''), (''section'', JNum ''1''), (''section_txt'', JStr ''X'')],
      JObj [(''chapter'', JNum ''1''), (''section'', JNum ''2''), (''section_txt'', JStr ''Y'')],
      JObj [(''chapter'', JNum ''2''), (''section'', JNum ''1''), (''section_txt'', JStr ''Z'')]]"

text \<open>\<open>path.join\<close> on two plain names.\<close>

definition join_plain :: path_join where
  "join_plain dir name = dir @ ''/'' @ name"

text \<open>What the scripts print, by kind of message.\<close>

datatype console =
    JobStarted string string
  | ReadFailed string
  | FieldsMissing string
  | SectionsGenerated nat
  | QuestionsFound nat
  | WriteFailed string
  | FilesCreated nat

text \<open>\<open>x.forEach\<close> exists on arrays only: on any other value the call is a TypeError.\<close>

fun as_array :: "json option \<Rightarrow> exn + json list" where
  "as_array (Some (JArr xs)) = Inr xs"
| "as_array _ = Inl TypeError"

text \<open>
  \<open>processConversionJob\<close> after the output directory is set up. The result is the
  uncaught exception, or the file system and the console output at the return.
  \<open>JSON.parse\<close> is a parameter; the call stands after the \<open>try\<close> block that guards
  the read.
\<close>

definition processConversionJob ::
  "'w readFileSync \<Rightarrow> (string \<Rightarrow> exn + json) \<Rightarrow> 'w writeFileSync \<Rightarrow> path_join
   \<Rightarrow> string \<times> string \<Rightarrow> 'w \<Rightarrow> exn + 'w \<times> console list" where
  "processConversionJob readFileSync JSON_parse writeFileSync join job w =
     (case job of (jsonPath, outputDir) \<Rightarrow>
        (case readFileSync jsonPath w of
           Inl error \<Rightarrow> Inr (w, [JobStarted jsonPath outputDir, ReadFailed jsonPath])
         | Inr rawData \<Rightarrow>
             (case JSON_parse rawData of
                Inl e \<Rightarrow> Inl e
              | Inr data \<Rightarrow>
                  (case (get_prop data ''sections'', get_prop data ''questions'') of
                     (Inr sections, Inr questions) \<Rightarrow>
                       if \<not> truthy sections \<or> \<not> truthy questions then
                         Inr (w, [JobStarted jsonPath outputDir, FieldsMissing jsonPath])
                       else
                         (case (as_array questions, as_array sections) of
                            (Inr qs, Inr ss) \<Rightarrow>
                              (case grouper writeFileSync join outputDir qs ss w of
                                 Inl e \<Rightarrow> Inl e
                               | Inr (w', generatedFilesCount) \<Rightarrow>
                                   Inr (w', [JobStarted jsonPath outputDir,
                                             SectionsGenerated generatedFilesCount]))
                          | _ \<Rightarrow> Inl TypeError)
                   | _ \<Rightarrow> Inl TypeError))))"

section \<open>konvertieren.js: the script\<close>

text \<open>\<open>path.join('Fragen', 'fragenkatalog3b.json')\<close> and the output directory.\<close>

definition inputFile :: string where
  "inputFile = ''Fragen/fragenkatalog3b.json''"

definition outputDir :: string where
  "outputDir = ''tex_fragen''"

definition bool_text :: "bool \<Rightarrow> string" where
  "bool_text b = (if b then ''true'' else ''false'')"

text \<open>
  The body of \<open>allQuestions.forEach(question => ...)\<close> up to the write: the file name
  and the trimmed fragment. Reading a property of \<open>null\<close> throws, and so does the
  template literal of the file name on a number without a text; neither is inside the
  \<open>try\<close>.
\<close>

definition question_file :: "json \<Rightarrow> exn + string \<times> string" where
  "question_file question =
     (case get_prop question ''number'' of
        Inl e \<Rightarrow> Inl e
      | Inr number \<Rightarrow>
          (let prop = (\<lambda>name. case get_prop question name of Inl e \<Rightarrow> None | Inr v \<Rightarrow> v);
               hasPicture = truthy (prop ''picture_question'');
               hasPictureA = truthy (prop ''picture_a'');
               latexFragment =
                 [CHR 0x0A, CHR 0x5C] @ ''frage{'' @ escape number @ ''}'' @ [CHR 0x0A]
                 @ ''    {'' @ escape (prop ''question'') @ ''}'' @ [CHR 0x0A]
                 @ ''    {'' @ escape (prop ''answer_a'') @ ''}'' @ [CHR 0x0A]
                 @ ''    {'' @ escape (prop ''answer_b'') @ ''}'' @ [CHR 0x0A]
                 @ ''    {'' @ escape (prop ''answer_c'') @ ''}'' @ [CHR 0x0A]
                 @ ''    {'' @ escape (prop ''answer_d'') @ ''}'' @ [CHR 0x0A]
                 @ ''    {'' @ bool_text hasPicture @ ''}{'' @ bool_text hasPictureA @ ''}''
                 @ [CHR 0x0A]
           in case template number of
                Inl e \<Rightarrow> Inl e
              | Inr text \<Rightarrow> Inr (text @ ''.tex'', trim latexFragment)))"

text \<open>
  The loop over the questions with the counter \<open>filesCreated\<close>: the write is inside
  a \<open>try\<close> whose \<open>catch\<close> prints the failure, and the loop goes on.
\<close>

fun forEach_question ::
  "'w writeFileSync \<Rightarrow> path_join \<Rightarrow> json list \<Rightarrow> 'w \<times> console list \<times> nat
   \<Rightarrow> exn + 'w \<times> console list \<times> nat" where
  "forEach_question writeFileSync join [] (w, out, filesCreated) = Inr (w, out, filesCreated)"
| "forEach_question writeFileSync join (question # rest) (w, out, filesCreated) =
     (case question_file question of
        Inl e \<Rightarrow> Inl e
      | Inr (fileName, fragment) \<Rightarrow>
          (let filePath = join outputDir fileName
           in case writeFileSync filePath fragment w of
                (None, w') \<Rightarrow>
                  forEach_question writeFileSync join rest (w', out, filesCreated + 1)
              | (Some error, w') \<Rightarrow>
                  forEach_question writeFileSync join rest
                    (w', out @ [WriteFailed filePath], filesCreated)))"

text \<open>
  \<open>main\<close> after the output directory is set up: reading and parsing stand in one
  \<open>try\<close> block whose \<open>catch\<close> prints the failure and returns.
\<close>

definition main ::
  "'w readFileSync \<Rightarrow> (string \<Rightarrow> exn + json) \<Rightarrow> 'w writeFileSync \<Rightarrow> path_join
   \<Rightarrow> 'w \<Rightarrow> exn + 'w \<times> console list" where
  "main readFileSync JSON_parse writeFileSync join w =
     (case (case readFileSync inputFile w of
              Inl error \<Rightarrow> Inl error
            | Inr fileContent \<Rightarrow> JSON_parse fileContent) of
        Inl error \<Rightarrow> Inr (w, [ReadFailed inputFile])
      | Inr allQuestionsRaw \<Rightarrow>
          (case extractor allQuestionsRaw of
             Inl e \<Rightarrow> Inl e
           | Inr allQuestions \<Rightarrow>
               (case forEach_question writeFileSync join allQuestions
                       (w, [QuestionsFound (length allQuestions)], 0) of
                  Inl e \<Rightarrow> Inl e
                | Inr (w', out, filesCreated) \<Rightarrow> Inr (w', out @ [FilesCreated filesCreated]))))"

chapter \<open>Properties\<close>

section \<open>The escaper\<close>

lemma replace_g_concat_map:
  "replace_g c r (concat (map f s)) = concat (map (\<lambda>x. replace_g c r (f x)) s)"
  by (induction s) (simp_all add: replace_g_def)

lemma apply_chain_concat_map:
  "apply_chain table (concat (map f s)) = concat (map (\<lambda>x. apply_chain table (f x)) s)"
proof (induction table arbitrary: f)
  case Nil
  show ?case by (simp add: apply_chain_def)
next
  case (Cons a table)
  obtain c r where a: "a = (c, r)" by (cases a)
  have "apply_chain (a # table) (concat (map f s)) =
        apply_chain table (replace_g c r (concat (map f s)))"
    by (simp add: apply_chain_def a)
  also have "\<dots> = apply_chain table (concat (map (\<lambda>x. replace_g c r (f x)) s))"
    by (simp only: replace_g_concat_map)
  also have "\<dots> = concat (map (\<lambda>x. apply_chain table (replace_g c r (f x))) s)"
    by (rule Cons.IH)
  finally show ?case by (simp add: apply_chain_def a)
qed

lemma chain_char: "apply_chain escape_table [x] = esc_char x"
  by (simp add: apply_chain_def escape_table_def esc_char_def replace_g_def)

text \<open>
  No replacement text holds a character that a later step replaces, so the chain is one
  pass that replaces every character on its own.
\<close>

lemma apply_chain_single_pass: "apply_chain escape_table s = concat (map esc_char s)"
proof -
  have "apply_chain escape_table s = apply_chain escape_table (concat (map (\<lambda>x. [x]) s))"
    by simp
  also have "\<dots> = concat (map (\<lambda>x. apply_chain escape_table [x]) s)"
    by (rule apply_chain_concat_map)
  finally show ?thesis by (simp add: chain_char)
qed

lemma escape_is_chain: "escape (Some (JStr s)) = apply_chain escape_table s"
  by (simp add: escape_def apply_chain_def escape_table_def)

lemma escape_single_pass: "escape (Some (JStr s)) = concat (map esc_char s)"
  by (simp only: escape_is_chain apply_chain_single_pass)

lemma escape_not_string: "\<not> is_string v \<Longrightarrow> escape v = []"
  by (auto simp: escape_def is_string_def split: option.splits json.splits)

lemma esc_char_backslash: "esc_char (CHR 0x5C) = [CHR 0x5C]"
  by (simp add: esc_char_def escape_table_def)

lemma escape_backslashes: "escape (Some (JStr (replicate n (CHR 0x5C)))) = replicate n (CHR 0x5C)"
  by (induction n) (simp_all add: escape_single_pass esc_char_backslash)

text \<open>
  C4. On a string the escaper is the chain of the nine replacements of the table, in
  the table's order, each applied to the result of the one before; a backslash is never
  replaced; on every value that is not a string the result is the empty string.
\<close>

theorem escape_replacement_chain:
  "escape (Some (JStr s)) = apply_chain escape_table s
   \<and> escape (Some (JStr (replicate n (CHR 0x5C)))) = replicate n (CHR 0x5C)
   \<and> (\<not> is_string v \<longrightarrow> escape v = [])"
  using escape_is_chain escape_backslashes escape_not_string by blast

theorem escape_replacement_chain_witness:
  "escape (Some (JStr ''a&b~'')) = CHR ''a'' # CHR 0x5C # ''&b'' @ CHR 0x5C # ''textasciitilde{}''
   \<and> escape (Some (JStr [CHR 0x5C, CHR 0x5C])) = [CHR 0x5C, CHR 0x5C]
   \<and> \<not> is_string (Some (JNum ''3'')) \<and> escape (Some (JNum ''3'')) = []
   \<and> \<not> is_string None \<and> escape None = []"
  using escape_replacement_chain [of "''a&b~''" 2 "Some (JNum ''3'')"]
    escape_replacement_chain [of "[]" 0 None]
  by (simp add: is_string_def apply_chain_def escape_table_def replace_g_def numeral_2_eq_2)

lemma length_esc_char: "1 \<le> length (esc_char x)"
  by (simp add: esc_char_def escape_table_def)

lemma length_single_pass: "length s \<le> length (concat (map esc_char s))"
proof (induction s)
  case Nil
  show ?case by simp
next
  case (Cons x s)
  with length_esc_char [of x] show ?case by simp
qed

lemma length_single_pass_amp:
  "CHR ''&'' \<in> set s \<Longrightarrow> length s < length (concat (map esc_char s))"
proof (induction s)
  case Nil
  then show ?case by simp
next
  case (Cons x s)
  show ?case
  proof (cases "x = CHR ''&''")
    case True
    have "length (esc_char x) = 2" by (simp add: True esc_char_def escape_table_def)
    with length_single_pass [of s] show ?thesis by simp
  next
    case False
    with Cons length_esc_char [of x] show ?thesis by simp
  qed
qed

lemma amp_in_single_pass:
  assumes "CHR ''&'' \<in> set s"
  shows "CHR ''&'' \<in> set (concat (map esc_char s))"
proof -
  have "CHR ''&'' \<in> set (esc_char (CHR ''&''))"
    by (simp add: esc_char_def escape_table_def)
  with assms show ?thesis by auto
qed

text \<open>
  C5. The escaper is not idempotent: for every string that holds the character \<open>&\<close>,
  escaping the escaped string gives a result other than the escaped string.
\<close>

theorem escape_not_idempotent:
  assumes "CHR ''&'' \<in> set x"
  shows "escape (Some (JStr (escape (Some (JStr x))))) \<noteq> escape (Some (JStr x))"
proof -
  let ?e = "escape (Some (JStr x))"
  have e: "?e = concat (map esc_char x)"
    by (rule escape_single_pass)
  have "CHR ''&'' \<in> set ?e" using assms by (simp only: e amp_in_single_pass)
  then have "length ?e < length (concat (map esc_char ?e))"
    by (rule length_single_pass_amp)
  then have "length ?e < length (escape (Some (JStr ?e)))"
    by (simp only: escape_single_pass)
  then show ?thesis by auto
qed

theorem escape_not_idempotent_witness:
  "CHR ''&'' \<in> set ''R&D''
   \<and> escape (Some (JStr (escape (Some (JStr ''R&D''))))) \<noteq> escape (Some (JStr ''R&D''))"
  using escape_not_idempotent [of "''R&D''"] by simp

section \<open>The extractor\<close>

lemma String_of_nat_digits: "set (String_of_nat n) \<subseteq> set ''0123456789''"
proof (induction n rule: String_of_nat.induct)
  case (1 n)
  have d: "''0123456789'' ! k \<in> set ''0123456789''" if "k < 10" for k
    using that by (intro nth_mem) simp
  show ?case
  proof (cases "n < 10")
    case True
    then show ?thesis using d [of n] by (subst String_of_nat.simps) simp
  next
    case False
    have "n mod 10 < 10" by simp
    then show ?thesis
      using False "1.IH" d [of "n mod 10"] by (subst String_of_nat.simps) simp
  qed
qed

lemma String_of_nat_not_questions: "String_of_nat n \<noteq> ''questions''"
proof
  assume "String_of_nat n = ''questions''"
  then have "CHR ''q'' \<in> set (String_of_nat n)" by simp
  with String_of_nat_digits [of n] show False by auto
qed

text \<open>The keys of an array's entries are indices: none of them is \<open>questions\<close>.\<close>

lemma index_keys_not_questions: "''questions'' \<notin> set (map String_of_nat ns)"
  using String_of_nat_not_questions by (auto simp: eq_commute [of "''questions''"])

lemma map_zip_other_keys:
  "length ks = length xs \<Longrightarrow> ''questions'' \<notin> set ks \<Longrightarrow>
   map (\<lambda>(k, v). if k = ''questions'' then A v else B v) (zip ks xs) = map B xs"
  by (induction ks xs rule: list_induct2) auto

lemma questions_arrays_array_entries:
  "questions_arrays (JObj (array_entries xs)) = questions_arrays (JArr xs)"
  using map_zip_other_keys [of "map String_of_nat [0..<length xs]" xs
      "\<lambda>v. case v of JArr ys \<Rightarrow> [ys] | _ \<Rightarrow> []" questions_arrays]
  by (simp add: array_entries_def index_keys_not_questions del: set_map)

lemma list_all_zip_other_keys:
  "length ks = length xs \<Longrightarrow> ''questions'' \<notin> set ks \<Longrightarrow>
   list_all (\<lambda>(k, v). if k = ''questions'' then A v else B v) (zip ks xs) = list_all B xs"
  by (induction ks xs rule: list_induct2) auto

lemma questions_are_arrays_array_entries:
  "questions_are_arrays (JObj (array_entries xs)) = questions_are_arrays (JArr xs)"
  using list_all_zip_other_keys [of "map String_of_nat [0..<length xs]" xs
      "\<lambda>v. case v of JArr ys \<Rightarrow> True | _ \<Rightarrow> False" questions_are_arrays]
  by (simp add: array_entries_def index_keys_not_questions del: set_map)

lemma spread_array:
  "(case v of JArr xs \<Rightarrow> True | _ \<Rightarrow> False) \<Longrightarrow>
   spread v = Inr (concat (case v of JArr xs \<Rightarrow> [xs] | _ \<Rightarrow> []))"
  by (cases v) simp_all

lemma traverse_collects:
  "questions_are_arrays j \<Longrightarrow> traverse j acc = Inr (acc @ concat (questions_arrays j))"
  "questions_are_arrays (JObj kvs) \<Longrightarrow>
     forEach_entry kvs acc = Inr (acc @ concat (questions_arrays (JObj kvs)))"
proof (induction j acc and kvs acc rule: traverse_forEach_entry.induct)
  case (1 kvs allQuestions)
  then show ?case by simp
next
  case (2 xs allQuestions)
  then show ?case
    by (simp only: traverse.simps questions_arrays_array_entries
        questions_are_arrays_array_entries)
next
  case (8 key "value" rest allQuestions)
  show ?case
  proof (cases "key = ''questions''")
    case True
    with "8.prems" have v: "case value of JArr xs \<Rightarrow> True | _ \<Rightarrow> False"
      and r: "questions_are_arrays (JObj rest)" by simp_all
    from "8.IH"(1) [OF True spread_array [OF v] r] spread_array [OF v] True
    show ?thesis by simp
  next
    case False
    with "8.prems" have v: "questions_are_arrays value"
      and r: "questions_are_arrays (JObj rest)" by simp_all
    from "8.IH"(2) [OF False v] have t: "traverse value allQuestions =
       Inr (allQuestions @ concat (questions_arrays value))" .
    from "8.IH"(3) [OF False t r] t False show ?thesis by simp
  qed
qed simp_all

text \<open>
  C1, as the code has it. For every value in which each value found directly under a
  key \<open>questions\<close> is an array, the extractor returns the concatenation, in depth-first
  order, of the arrays found directly under a key \<open>questions\<close>: its length is the sum
  of their lengths and the elements keep their order within and across the arrays. The
  elements of such an array are not searched: whatever the array \<open>xs\<close> under
  \<open>questions\<close> holds, it is returned as it is.
\<close>

theorem extractor_concat_questions_arrays:
  "(questions_are_arrays j \<longrightarrow>
      extractor j = Inr (concat (questions_arrays j))
      \<and> (\<exists>out. extractor j = Inr out \<and> length out = sum_list (map length (questions_arrays j))))
   \<and> extractor (JObj [(''questions'', JArr xs)]) = Inr xs"
proof (intro conjI impI)
  assume ok: "questions_are_arrays j"
  then show c: "extractor j = Inr (concat (questions_arrays j))"
    by (simp add: extractor_def traverse_collects(1))
  then show "\<exists>out. extractor j = Inr out \<and> length out = sum_list (map length (questions_arrays j))"
    by (simp add: length_concat)
next
  show "extractor (JObj [(''questions'', JArr xs)]) = Inr xs"
    by (simp add: extractor_def)
qed

theorem extractor_concat_questions_arrays_witness:
  "questions_are_arrays
     (JObj [(''a'', JObj [(''questions'', JArr [JNum ''1'', JNum ''2''])]),
            (''b'', JArr [JObj [(''questions'', JArr [JNum ''3''])]])])
   \<and> extractor
     (JObj [(''a'', JObj [(''questions'', JArr [JNum ''1'', JNum ''2''])]),
            (''b'', JArr [JObj [(''questions'', JArr [JNum ''3''])]])])
     = Inr [JNum ''1'', JNum ''2'', JNum ''3'']
   \<and> extractor (JObj [(''questions'', JArr [JObj [(''questions'', JArr [JNum ''7''])]])])
     = Inr [JObj [(''questions'', JArr [JNum ''7''])]]"
  using extractor_concat_questions_arrays
    [of "JObj [(''a'', JObj [(''questions'', JArr [JNum ''1'', JNum ''2''])]),
               (''b'', JArr [JObj [(''questions'', JArr [JNum ''3''])]])]"
        "[JObj [(''questions'', JArr [JNum ''7''])]]"]
  by simp

text \<open>
  C1 as stated fails where a value under \<open>questions\<close> is not an array: a string under
  the key is spread into its characters, which no array under a key \<open>questions\<close>
  holds, and on a number the spread throws, so that there is no output at all.
\<close>

theorem extractor_non_array_counterexample:
  "extractor (JObj [(''questions'', JStr ''ab'')]) = Inr [JStr ''a'', JStr ''b'']
   \<and> concat (questions_arrays (JObj [(''questions'', JStr ''ab'')])) = []
   \<and> extractor (JObj [(''questions'', JNum ''5'')]) = Inl TypeError"
  by (simp add: extractor_def)

section \<open>The SVG dimension extractor\<close>

lemma split_trim_empty: "split_separators (trim []) = [[]]"
  by (simp add: trim_def)

text \<open>
  C6, as the code has it. On a root tag whose \<open>viewBox\<close> splits into exactly four
  tokens: when \<open>width\<close> and \<open>height\<close> are both present and not empty, nothing is
  derived and the source is \<open>attributes\<close>; when at least one of them is absent or
  empty, each missing one is taken from the \<open>viewBox\<close>, the width from the token at
  position 2 and the height from the token at position 3 (counting from 0), a present
  one is kept, and the unit reported is \<open>unitless (from viewBox)\<close>.
\<close>

theorem viewBox_derivation:
  assumes tag: "svg_match svgContent = Some rootTag"
    and w: "extractAttribute rootTag ''width'' = w"
    and h: "extractAttribute rootTag ''height'' = h"
    and vb: "extractAttribute rootTag ''viewBox'' = Some vb"
    and parts: "split_separators (trim vb) = [p0, p1, p2, p3]"
  shows "(truthy_string w \<and> truthy_string h \<longrightarrow>
            (\<exists>u. getSvgDimensions svgContent =
               Dimensions \<lparr>width = w, height = h, unit = u, viewBox = Some vb,
                 source = ''attributes''\<rparr>))
       \<and> (\<not> truthy_string w \<or> \<not> truthy_string h \<longrightarrow>
            getSvgDimensions svgContent =
              Dimensions \<lparr>width = (if truthy_string w then w else Some p2),
                height = (if truthy_string h then h else Some p3),
                unit = ''unitless (from viewBox)'', viewBox = Some vb,
                source = ''viewBox aspect ratio''\<rparr>)"
proof -
  have ne: "vb \<noteq> []" using parts split_trim_empty by auto
  show ?thesis
  proof (intro conjI impI)
    assume both: "truthy_string w \<and> truthy_string h"
    then obtain wv hv where wv: "w = Some wv" "wv \<noteq> []" and hv: "h = Some hv" "hv \<noteq> []"
      by (auto simp: truthy_string_def split: option.splits)
    show "\<exists>u. getSvgDimensions svgContent =
               Dimensions \<lparr>width = w, height = h, unit = u, viewBox = Some vb,
                 source = ''attributes''\<rparr>"
      using tag w h vb wv hv
      by (simp add: getSvgDimensions_def truthy_string_def)
  next
    assume missing: "\<not> truthy_string w \<or> \<not> truthy_string h"
    then show "getSvgDimensions svgContent =
              Dimensions \<lparr>width = (if truthy_string w then w else Some p2),
                height = (if truthy_string h then h else Some p3),
                unit = ''unitless (from viewBox)'', viewBox = Some vb,
                source = ''viewBox aspect ratio''\<rparr>"
      using tag w h vb parts ne
      by (cases w; cases h) (auto simp: getSvgDimensions_def truthy_string_def Let_def)
  qed
qed

lemma testSvg2_tag:
  "svg_match testSvg2 = Some (take 61 testSvg2)"
  by code_simp

lemma testSvg2_attributes:
  "extractAttribute (take 61 testSvg2) ''width'' = None"
  "extractAttribute (take 61 testSvg2) ''height'' = None"
  "extractAttribute (take 61 testSvg2) ''viewBox'' = Some ''0 0 100 50''"
  by code_simp+

lemma testSvg2_parts: "split_separators (trim ''0 0 100 50'') = [''0'', ''0'', ''100'', ''50'']"
  by code_simp

theorem viewBox_derivation_witness:
  "svg_match testSvg2 = Some (take 61 testSvg2)
   \<and> extractAttribute (take 61 testSvg2) ''width'' = None
   \<and> extractAttribute (take 61 testSvg2) ''height'' = None
   \<and> extractAttribute (take 61 testSvg2) ''viewBox'' = Some ''0 0 100 50''
   \<and> split_separators (trim ''0 0 100 50'') = [''0'', ''0'', ''100'', ''50'']
   \<and> getSvgDimensions testSvg2 =
       Dimensions \<lparr>width = Some ''100'', height = Some ''50'',
         unit = ''unitless (from viewBox)'', viewBox = Some ''0 0 100 50'',
         source = ''viewBox aspect ratio''\<rparr>"
  using viewBox_derivation [OF testSvg2_tag testSvg2_attributes testSvg2_parts]
    testSvg2_tag testSvg2_attributes testSvg2_parts
  by (simp add: truthy_string_def)

text \<open>
  C6 as stated fails twice. With \<open>width\<close> present and \<open>height\<close> absent the height is
  still taken from the \<open>viewBox\<close>; and on the \<open>viewBox\<close> of four tokens \<open>0 0 100 50\<close>
  the derived width is the token at position 2 counting from 0, not the one at
  position 3.
\<close>

theorem viewBox_derivation_counterexample:
  "getSvgDimensions (''<svg width='' @ [CHR 0x22] @ ''100'' @ [CHR 0x22] @ '' viewBox=''
       @ [CHR 0x22] @ ''0 0 10 20'' @ [CHR 0x22] @ ''>'') =
     Dimensions \<lparr>width = Some ''100'', height = Some ''20'',
       unit = ''unitless (from viewBox)'', viewBox = Some ''0 0 10 20'',
       source = ''viewBox aspect ratio''\<rparr>
   \<and> extractAttribute (''<svg width='' @ [CHR 0x22] @ ''100'' @ [CHR 0x22] @ '' viewBox=''
       @ [CHR 0x22] @ ''0 0 10 20'' @ [CHR 0x22] @ ''>'') ''width'' = Some ''100''
   \<and> width (case getSvgDimensions testSvg2 of Dimensions d \<Rightarrow> d) = Some ''100''
   \<and> split_separators (trim ''0 0 100 50'') ! 3 = ''50''"
  by code_simp

text \<open>
  C10. The attribute lookup has no word boundary before the name: on the root tag
  \<open><svg stroke-width="2">\<close>, which has no attribute \<open>width\<close>, the lookup of \<open>width\<close>
  gives \<open>2\<close>, and the dimensions reported have the width \<open>2\<close> and the source
  \<open>attributes\<close>.
\<close>

theorem extractAttribute_matches_name_suffix:
  "extractAttribute (''<svg stroke-width='' @ [CHR 0x22] @ ''2'' @ [CHR 0x22] @ ''>'') ''width''
     = Some ''2''
   \<and> getSvgDimensions (''<svg stroke-width='' @ [CHR 0x22] @ ''2'' @ [CHR 0x22] @ ''>'') =
       Dimensions \<lparr>width = Some ''2'', height = None, unit = ''unitless (default px)'',
         viewBox = None, source = ''attributes''\<rparr>"
  by code_simp

theorem extractAttribute_matches_name_suffix_witness:
  "width (case getSvgDimensions (''<svg stroke-width='' @ [CHR 0x22] @ ''2'' @ [CHR 0x22] @ ''>'')
          of Dimensions d \<Rightarrow> d) = Some ''2''
   \<and> source (case getSvgDimensions (''<svg stroke-width='' @ [CHR 0x22] @ ''2'' @ [CHR 0x22] @ ''>'')
          of Dimensions d \<Rightarrow> d) = ''attributes''"
  using extractAttribute_matches_name_suffix by simp

section \<open>The grouper\<close>

lemma has_text_field:
  "has_text x name \<Longrightarrow> \<exists>v. get_prop x name = Inr v \<and> template v = Inr (field_text x name)"
  by (auto simp: has_text_def field_text_def split: sum.splits)

lemma key_of_key_text:
  assumes "has_text x ''chapter''" and "has_text x ''section''"
  shows "key_of x = Inr (key_text x)"
  using has_text_field [OF assms(1)] has_text_field [OF assms(2)]
  by (auto simp: key_of_def key_text_def)

lemma group_questions_step:
  assumes "key_of q = Inr (key_text q)"
  shows "group_questions (q # rest) m =
     group_questions rest
       (m(key_text q \<mapsto> (case m (key_text q) of None \<Rightarrow> [] | Some old \<Rightarrow> old) @ [q]))"
proof (cases "m (key_text q)")
  case None
  then show ?thesis by (simp add: assms)
next
  case (Some old)
  then show ?thesis by (simp add: assms)
qed

lemma grouped_step:
  "grouped qs (m(key_text q \<mapsto> (case m (key_text q) of None \<Rightarrow> [] | Some old \<Rightarrow> old) @ [q]))
   = grouped (q # qs) m"
  by (rule ext) (auto simp: grouped_def split: option.splits)

lemma group_questions_grouped:
  "\<forall>q\<in>set qs. has_text q ''chapter'' \<and> has_text q ''section'' \<Longrightarrow>
   group_questions qs m = Inr (grouped qs m)"
proof (induction qs arbitrary: m)
  case Nil
  show ?case by (simp add: grouped_def fun_eq_iff split: option.splits)
next
  case (Cons q qs)
  then have q: "key_of q = Inr (key_text q)"
    and qs: "\<forall>q\<in>set qs. has_text q ''chapter'' \<and> has_text q ''section''"
    by (auto simp: key_of_key_text)
  show ?case
    by (simp only: group_questions_step [OF q] Cons.IH [OF qs] grouped_step)
qed

lemma grouped_empty:
  "grouped qs Map.empty k =
     (if filter (\<lambda>q. key_text q = k) qs = [] then None else Some (filter (\<lambda>q. key_text q = k) qs))"
  by (simp add: grouped_def)

lemma fragenListe_of_grouped:
  assumes "has_text s ''chapter''" and "has_text s ''section''"
  shows "fragenListe_of (grouped qs Map.empty) s = matching qs s"
  by (simp add: fragenListe_of_def key_of_key_text [OF assms] grouped_empty matching_def)





lemma forEach_section_records:
  "forEach_section (\<lambda>path data w. (None, w @ [(path, data)])) join dir m ss (w, n) =
     (case section_files m ss of
        Inl e \<Rightarrow> Inl e
      | Inr files \<Rightarrow> Inr (w @ map (\<lambda>(f, c). (join dir f, c)) files, n + length files))"
proof (induction ss arbitrary: w n)
  case Nil
  show ?case by simp
next
  case (Cons s ss)
  show ?case
  proof (cases "section_file m s")
    case (Inl e)
    then show ?thesis by simp
  next
    case (Inr r)
    show ?thesis
    proof (cases r)
      case None
      with Inr show ?thesis by (simp add: Cons.IH)
    next
      case (Some tex)
      obtain f c where fc: "tex = (f, c)" by (cases tex)
      show ?thesis
        using Inr Some fc
        by (cases "section_files m ss") (simp_all add: Cons.IH)
    qed
  qed
qed

lemma forEach_section_recording:
  "forEach_section recording join dir m ss (w, n) =
     (case section_files m ss of
        Inl e \<Rightarrow> Inl e
      | Inr files \<Rightarrow> Inr (w @ map (\<lambda>(f, c). (join dir f, c)) files, n + length files))"
  unfolding recording_def [abs_def] by (rule forEach_section_records)

lemma grouper_recording:
  "grouper recording join dir qs ss w =
     (case group_questions qs Map.empty of
        Inl e \<Rightarrow> Inl e
      | Inr m \<Rightarrow>
          (case section_files m ss of
             Inl e \<Rightarrow> Inl e
           | Inr files \<Rightarrow> Inr (w @ map (\<lambda>(f, c). (join dir f, c)) files, length files)))"
  by (simp add: grouper_def forEach_section_recording split: sum.splits)

text \<open>
  C9. The grouper is deterministic in its two sequences: two runs on the same
  questions and sections, started in any two states of the recording file system,
  end alike, with the same exception or with the same files written in the same order
  and the same count.
\<close>

theorem grouper_deterministic:
  "map_sum id (\<lambda>(w', n). (drop (length w1) w', n)) (grouper recording join dir qs ss w1) =
   map_sum id (\<lambda>(w', n). (drop (length w2) w', n)) (grouper recording join dir qs ss w2)"
  by (simp add: grouper_recording split: sum.splits)


lemma dash_split:
  assumes "CHR ''-'' \<notin> set a" "CHR ''-'' \<notin> set a'"
  shows "a @ ''-'' @ b = a' @ ''-'' @ b' \<longleftrightarrow> a = a' \<and> b = b'"
proof
  assume eq: "a @ ''-'' @ b = a' @ ''-'' @ b'"
  have "takeWhile (\<lambda>c. c \<noteq> CHR ''-'') (a @ ''-'' @ b) = a"
    using assms(1) by (subst takeWhile_append2) auto
  moreover have "takeWhile (\<lambda>c. c \<noteq> CHR ''-'') (a' @ ''-'' @ b') = a'"
    using assms(2) by (subst takeWhile_append2) auto
  ultimately have "a = a'" using eq by simp
  with eq show "a = a' \<and> b = b'" by simp
qed simp

text \<open>
  C3, as the code has it. For questions and a section whose chapter and section have a
  text, the first loop ends with a map, and the list the second loop finds for the
  section holds exactly the questions whose text \<open><chapter>-<section>\<close> is that of the
  section, in their order; the section's file is built from this list, and there is
  none when the list is empty. For a question whose chapter text, like that of the
  section, holds no hyphen, the question is in the list exactly when the chapter texts
  are equal and the section texts are equal.
\<close>

theorem grouper_joins_iff:
  assumes qs: "\<forall>q\<in>set questions. has_text q ''chapter'' \<and> has_text q ''section''"
    and s: "has_text s ''chapter'' \<and> has_text s ''section''"
  shows "\<exists>m. group_questions questions Map.empty = Inr m
     \<and> fragenListe_of m s =
         filter (\<lambda>q. field_text q ''chapter'' @ ''-'' @ field_text q ''section''
                     = field_text s ''chapter'' @ ''-'' @ field_text s ''section'') questions
     \<and> section_file m s =
         (if fragenListe_of m s = [] then Inr None
          else map_sum id Some (section_tex s (fragenListe_of m s)))
     \<and> (\<forall>q\<in>set questions.
           CHR ''-'' \<notin> set (field_text q ''chapter'') \<and> CHR ''-'' \<notin> set (field_text s ''chapter'')
           \<longrightarrow> (q \<in> set (fragenListe_of m s)
                \<longleftrightarrow> field_text q ''chapter'' = field_text s ''chapter''
                    \<and> field_text q ''section'' = field_text s ''section''))"
proof -
  let ?m = "grouped questions Map.empty"
  have g: "group_questions questions Map.empty = Inr ?m"
    by (rule group_questions_grouped [OF qs])
  have f: "fragenListe_of ?m s = matching questions s"
    using s by (simp add: fragenListe_of_grouped)
  have k: "key_of s = Inr (key_text s)" using s by (simp add: key_of_key_text)
  have sf: "section_file ?m s =
         (if fragenListe_of ?m s = [] then Inr None
          else map_sum id Some (section_tex s (fragenListe_of ?m s)))"
    by (cases "section_tex s (matching questions s)")
      (auto simp: section_file_def fragenListe_of_def k grouped_empty matching_def)
  have j: "q \<in> set (fragenListe_of ?m s)
                \<longleftrightarrow> field_text q ''chapter'' = field_text s ''chapter''
                    \<and> field_text q ''section'' = field_text s ''section''"
    if "q \<in> set questions" "CHR ''-'' \<notin> set (field_text q ''chapter'')"
      "CHR ''-'' \<notin> set (field_text s ''chapter'')" for q
    using that dash_split [OF that(2,3)] by (simp add: f matching_def key_text_def)
  show ?thesis
    using g f sf j by (intro exI [of _ ?m]) (simp add: matching_def key_text_def)
qed

lemma example_records:
  "list_all question_record example_questions" "list_all section_record example_sections"
  by code_simp+

lemma example_keys:
  "\<forall>q\<in>set example_questions. has_text q ''chapter'' \<and> has_text q ''section''"
  using example_records(1) by (simp add: list_all_iff question_record_def)




theorem grouper_deterministic_witness:
  "map_sum id (\<lambda>(w', n). (drop (length ([] :: (string \<times> string) list)) w', n))
     (grouper recording join_plain ''tex_sections'' example_questions example_sections []) =
   map_sum id (\<lambda>(w', n). (drop (length [(''old.tex'', ''x'')]) w', n))
     (grouper recording join_plain ''tex_sections'' example_questions example_sections
        [(''old.tex'', ''x'')])"
  by (rule grouper_deterministic)

lemma example_first_section:
  "has_text (hd example_sections) ''chapter'' \<and> has_text (hd example_sections) ''section''"
  by code_simp

lemma example_first_join:
  "filter (\<lambda>q. field_text q ''chapter'' @ ''-'' @ field_text q ''section''
               = field_text (hd example_sections) ''chapter'' @ ''-''
                 @ field_text (hd example_sections) ''section'') example_questions
   = take 1 example_questions"
  by code_simp

theorem grouper_joins_iff_witness:
  "list_all (\<lambda>q. has_text q ''chapter'' \<and> has_text q ''section'') example_questions
   \<and> has_text (hd example_sections) ''chapter'' \<and> has_text (hd example_sections) ''section''
   \<and> (\<exists>m. group_questions example_questions Map.empty = Inr m
         \<and> fragenListe_of m (hd example_sections) = take 1 example_questions)"
proof -
  from grouper_joins_iff [OF example_keys example_first_section]
  obtain m where "group_questions example_questions Map.empty = Inr m"
    "fragenListe_of m (hd example_sections) =
       filter (\<lambda>q. field_text q ''chapter'' @ ''-'' @ field_text q ''section''
               = field_text (hd example_sections) ''chapter'' @ ''-''
                 @ field_text (hd example_sections) ''section'') example_questions"
    by blast
  then show ?thesis
    using example_keys example_first_section
    by (auto simp only: example_first_join list_all_iff)
qed

text \<open>
  C3 as stated fails: the question of chapter \<open>"1-2"\<close>, section \<open>3\<close> and the section
  record of chapter \<open>1\<close>, section \<open>"2-3"\<close> differ in their chapters and have the same
  key \<open>1-2-3\<close>; the grouper joins them and writes the question into the section's
  file.
\<close>

theorem key_collision_counterexample:
  "field_text (JObj [(''chapter'', JStr ''1-2''), (''section'', JNum ''3''), (''number'', JStr ''A'')])
       ''chapter''
     \<noteq> field_text (JObj [(''chapter'', JNum ''1''), (''section'', JStr ''2-3''),
                        (''section_txt'', JStr ''X'')]) ''chapter''
   \<and> key_of (JObj [(''chapter'', JStr ''1-2''), (''section'', JNum ''3''), (''number'', JStr ''A'')])
       = Inr ''1-2-3''
   \<and> key_of (JObj [(''chapter'', JNum ''1''), (''section'', JStr ''2-3''),
                   (''section_txt'', JStr ''X'')])
       = Inr ''1-2-3''
   \<and> grouper recording join_plain ''tex_sections''
       [JObj [(''chapter'', JStr ''1-2''), (''section'', JNum ''3''), (''number'', JStr ''A'')]]
       [JObj [(''chapter'', JNum ''1''), (''section'', JStr ''2-3''), (''section_txt'', JStr ''X'')]]
       []
     = Inr ([(''tex_sections/1S2-3.tex'',
              ''% Kapitel 1, Sektion 2-3: X'' @ [CHR 0x0A, CHR 0x0A, CHR 0x5C]
              @ ''begin{description}'' @ [CHR 0x0A] @ ''    '' @ [CHR 0x5C]
              @ ''input{tex_fragen/A.tex}'' @ [CHR 0x0A, CHR 0x5C] @ ''end{description}''
              @ [CHR 0x0A])], 1)"
  by code_simp

section \<open>Failures of parsing and writing\<close>

lemma main_catches_read_and_parse_failure:
  assumes "readFileSync inputFile w = Inl e
           \<or> (readFileSync inputFile w = Inr raw \<and> JSON_parse raw = Inl e)"
  shows "main readFileSync JSON_parse writeFileSync join w = Inr (w, [ReadFailed inputFile])"
  using assms by (auto simp: main_def)

text \<open>
  C7. In \<open>main\<close> a failure of the read or of \<open>JSON.parse\<close> is caught, printed, and
  \<open>main\<close> returns (lemma above). In \<open>processConversionJob\<close> only the read is guarded:
  when the file is read and \<open>JSON.parse\<close> throws, the exception leaves the job
  uncaught.
\<close>

theorem processConversionJob_parse_failure_uncaught:
  assumes "readFileSync jsonPath w = Inr rawData" and "JSON_parse rawData = Inl e"
  shows "processConversionJob readFileSync JSON_parse writeFileSync join (jsonPath, dir) w = Inl e"
  using assms by (simp add: processConversionJob_def)

theorem processConversionJob_parse_failure_uncaught_witness:
  "processConversionJob (\<lambda>path w. Inr ''{'')
     (\<lambda>text. if text = ''{'' then Inl SyntaxError else Inr JNull)
     recording join_plain (''50Ohm/50Ohm_NE.json'', ''tex_sections'') [] = Inl SyntaxError"
  using processConversionJob_parse_failure_uncaught
    [of "\<lambda>path w. Inr ''{''" "''50Ohm/50Ohm_NE.json''" "[]" "''{''"
        "\<lambda>text. if text = ''{'' then Inl SyntaxError else Inr JNull" SyntaxError
        recording join_plain "''tex_sections''"]
  by simp

lemma question_file_total:
  assumes "has_text q ''number''"
  shows "\<exists>f. question_file q = Inr f"
proof -
  from has_text_field [OF assms] obtain v where
    "get_prop q ''number'' = Inr v" "template v = Inr (field_text q ''number'')" by blast
  then show ?thesis by (simp add: question_file_def Let_def)
qed

text \<open>
  On a file system that records every write and fails the writes to the paths in
  \<open>bad\<close>, the loop of \<open>main\<close> over questions whose number has a text attempts the
  write of every question and counts the writes that succeed.
\<close>

lemma forEach_question_continues:
  assumes "\<forall>q\<in>set qs. has_text q ''number''"
  shows "\<exists>files out'.
    map Inr files = map question_file qs
    \<and> forEach_question (\<lambda>path data w. (if path \<in> bad then Some FsError else None, w @ [(path, data)]))
          join qs (w, out, n)
       = Inr (w @ map (\<lambda>(f, c). (join outputDir f, c)) files, out',
              n + length (filter (\<lambda>(f, c). join outputDir f \<notin> bad) files))"
  using assms
proof (induction qs arbitrary: w out n)
  case Nil
  show ?case by simp
next
  case (Cons q qs)
  then have q: "has_text q ''number''" and qs: "\<forall>q\<in>set qs. has_text q ''number''" by auto
  from question_file_total [OF q] obtain f c where f: "question_file q = Inr (f, c)" by auto
  let ?W = "\<lambda>path data w. (if path \<in> bad then Some FsError else None, w @ [(path, data)])"
  show ?case
  proof (cases "join outputDir f \<in> bad")
    case True
    from Cons.IH [OF qs, of "w @ [(join outputDir f, c)]" "out @ [WriteFailed (join outputDir f)]" n]
    obtain files out' where
      "map Inr files = map question_file qs"
      "forEach_question ?W join qs
         (w @ [(join outputDir f, c)], out @ [WriteFailed (join outputDir f)], n)
       = Inr ((w @ [(join outputDir f, c)]) @ map (\<lambda>(f, c). (join outputDir f, c)) files, out',
              n + length (filter (\<lambda>(f, c). join outputDir f \<notin> bad) files))"
      by blast
    with f True show ?thesis
      by (intro exI [of _ "(f, c) # files"] exI [of _ out']) (simp add: Let_def)
  next
    case False
    from Cons.IH [OF qs, of "w @ [(join outputDir f, c)]" out "n + 1"]
    obtain files out' where
      "map Inr files = map question_file qs"
      "forEach_question ?W join qs (w @ [(join outputDir f, c)], out, n + 1)
       = Inr ((w @ [(join outputDir f, c)]) @ map (\<lambda>(f, c). (join outputDir f, c)) files, out',
              n + 1 + length (filter (\<lambda>(f, c). join outputDir f \<notin> bad) files))"
      by blast
    with f False show ?thesis
      by (intro exI [of _ "(f, c) # files"] exI [of _ out']) (simp add: Let_def)
  qed
qed

text \<open>
  C8. In \<open>main\<close> every question's write is attempted whichever writes fail (lemma
  above). In \<open>processConversionJob\<close> the write of a section's file is not guarded:
  when it throws, the exception ends the loop and the job, and the sections after it
  are not processed.
\<close>

theorem forEach_section_write_failure_aborts:
  assumes "section_file m sektion = Inr (Some (fileName, content))"
    and "writeFileSync (join dir fileName) content w = (Some e, w')"
  shows "forEach_section writeFileSync join dir m (sektion # rest) (w, n) = Inl e"
  using assms by simp

lemma example_first_file:
  "section_file (grouped example_questions Map.empty) (hd example_sections) =
     Inr (Some (''1S1.tex'',
       case section_file (grouped example_questions Map.empty) (hd example_sections) of
         Inr (Some (f, c)) \<Rightarrow> c | _ \<Rightarrow> []))"
  by code_simp

theorem forEach_section_write_failure_aborts_witness:
  "grouper (\<lambda>path data w. (if path = ''tex_sections/1S1.tex'' then Some FsError else None,
                             w @ [(path, data)]))
     join_plain ''tex_sections'' example_questions example_sections [] = Inl FsError"
proof -
  let ?W = "\<lambda>path data w. (if path = ''tex_sections/1S1.tex'' then Some FsError else None,
                             w @ [(path, data)])"
  let ?c = "case section_file (grouped example_questions Map.empty) (hd example_sections) of
         Inr (Some (f, c)) \<Rightarrow> c | _ \<Rightarrow> []"
  have g: "group_questions example_questions Map.empty = Inr (grouped example_questions Map.empty)"
    by (rule group_questions_grouped [OF example_keys])
  have w: "?W (join_plain ''tex_sections'' ''1S1.tex'') ?c [] =
             (Some FsError, [(join_plain ''tex_sections'' ''1S1.tex'', ?c)])"
    by (simp add: join_plain_def)
  have s: "example_sections = hd example_sections # tl example_sections"
    by (simp add: example_sections_def)
  from forEach_section_write_failure_aborts
    [of "grouped example_questions Map.empty" "hd example_sections" "''1S1.tex''" ?c
        ?W join_plain "''tex_sections''" "[]" FsError
        "[(join_plain ''tex_sections'' ''1S1.tex'', ?c)]" "tl example_sections" 0,
     OF example_first_file w]
  show ?thesis
    by (subst s) (simp add: grouper_def g)
qed

end
